theory Spec2Isabelle
  imports Complex_Main "HOL-Library.Sublist"
begin

section \<open>Python values\<close>

text \<open>
  The program moves untyped Python values around: whatever \<^verbatim>\<open>json.loads\<close> or
  \<^verbatim>\<open>response.json()\<close> returns is handed on as it is. A Python \<^verbatim>\<open>dict\<close> keeps its
  insertion order and is kept as an association list; \<^verbatim>\<open>None\<close> is a value like any
  other (an omitted \<^verbatim>\<open>Optional\<close> argument and a parsed JSON \<^verbatim>\<open>null\<close> are the same
  object). A float is only ever tested for truth, so it is kept as the real number it
  denotes or one of the three special values the JSON decoder of Python accepts.
\<close>

datatype pyfloat = Finite real | PosInf | NegInf | NaN

datatype pyval =
    PNone
  | PBool bool
  | PInt int
  | PFloat pyfloat
  | PStr string
  | PList "pyval list"
  | PDict "(string \<times> pyval) list"

text \<open>Truth value testing, as in \<^verbatim>\<open>if bind_vars:\<close>.\<close>

fun truthy :: "pyval \<Rightarrow> bool" where
  "truthy PNone = False"
| "truthy (PBool b) = b"
| "truthy (PInt i) = (i \<noteq> 0)"
| "truthy (PFloat f) = (f \<noteq> Finite 0)"
| "truthy (PStr s) = (s \<noteq> [])"
| "truthy (PList xs) = (xs \<noteq> [])"
| "truthy (PDict kvs) = (kvs \<noteq> [])"

text \<open>\<^verbatim>\<open>k in s\<close> for two strings: \<open>k\<close> occurs in \<open>s\<close> as a contiguous piece.\<close>

fun substring :: "string \<Rightarrow> string \<Rightarrow> bool" where
  "substring k [] = (k = [])"
| "substring k (c # cs) = (prefix k (c # cs) \<or> substring k cs)"

text \<open>
  \<^verbatim>\<open>k in v\<close> for a string \<open>k\<close>: key membership on a dict, element membership on a list,
  substring test on a string, and a \<^verbatim>\<open>TypeError\<close> (here \<open>None\<close>) on anything that is
  not a container.
\<close>

fun py_contains :: "string \<Rightarrow> pyval \<Rightarrow> bool option" where
  "py_contains k (PDict kvs) = Some (k \<in> set (map fst kvs))"
| "py_contains k (PList xs) = Some (PStr k \<in> set xs)"
| "py_contains k (PStr s) = Some (substring k s)"
| "py_contains k PNone = None"
| "py_contains k (PBool b) = None"
| "py_contains k (PInt i) = None"
| "py_contains k (PFloat f) = None"

text \<open>
  \<^verbatim>\<open>v[k]\<close> for a string \<open>k\<close>: the value stored under the key of a dict
  (\<^verbatim>\<open>KeyError\<close> when there is none), and a \<^verbatim>\<open>TypeError\<close> on every other value: lists
  and strings take integer indices only. \<open>None\<close> stands for the exception.
\<close>

fun py_getitem :: "pyval \<Rightarrow> string \<Rightarrow> pyval option" where
  "py_getitem (PDict kvs) k = map_of kvs k"
| "py_getitem (PList xs) k = None"
| "py_getitem (PStr s) k = None"
| "py_getitem PNone k = None"
| "py_getitem (PBool b) k = None"
| "py_getitem (PInt i) k = None"
| "py_getitem (PFloat f) k = None"

text \<open>\<^verbatim>\<open>s.rstrip("/")\<close>: every trailing slash is removed.\<close>

definition rstrip_slash :: "string \<Rightarrow> string" where
  "rstrip_slash s = rev (dropWhile (\<lambda>c. c = CHR ''/'') (rev s))"

text \<open>\<^verbatim>\<open>a or b\<close> for an optional string \<open>a\<close>: \<^verbatim>\<open>None\<close> and the empty string are false.\<close>

definition py_or :: "string option \<Rightarrow> string \<Rightarrow> string" where
  "py_or a b = (case a of None \<Rightarrow> b | Some s \<Rightarrow> if s \<noteq> [] then s else b)"

section \<open>The world outside the program\<close>

text \<open>
  What \<^verbatim>\<open>httpx\<close> hands back. A response carries its status code, the result of its
  \<^verbatim>\<open>json()\<close> method (\<open>Inl\<close> when the body does not decode, with the text of the
  exception) and the text \<^verbatim>\<open>raise_for_status\<close> gives the \<^verbatim>\<open>HTTPStatusError\<close> it
  raises for this response.
\<close>

record response =
  status_code :: int
  json_body :: "string + pyval"
  status_text :: string

record http_request =
  req_method :: string
  req_url :: string
  req_json :: pyval
  req_params :: pyval
  req_timeout :: real

text \<open>
  The outcome of \<^verbatim>\<open>httpx.request\<close>: a response, a \<^verbatim>\<open>httpx.RequestError\<close> (connection
  refused, name resolution, timeout, ...) with its text, or an exception of another
  class (\<^verbatim>\<open>httpx.InvalidURL\<close>, for one), which no handler of the program catches.
\<close>

datatype transport = Response response | RequestError string | OtherError string

text \<open>
  The environment of one run: the process environment, the network as a function of
  the request sent, and \<^verbatim>\<open>json.loads\<close> (\<open>Inl\<close> is a \<^verbatim>\<open>JSONDecodeError\<close> with its
  text).
\<close>

record world =
  environ :: "string \<rightharpoonup> string"
  httpx_request :: "http_request \<Rightarrow> transport"
  json_loads :: "string \<Rightarrow> string + pyval"

record http_status_error =
  err_text :: string
  err_response :: response

text \<open>
  \<^verbatim>\<open>response.raise_for_status()\<close> of \<^verbatim>\<open>httpx\<close>: nothing happens on a 2xx response,
  every other response raises \<^verbatim>\<open>HTTPStatusError\<close>. The theorems below only rely on
  it for 2xx, 4xx and 5xx.
\<close>

definition raise_for_status :: "response \<Rightarrow> http_status_error option" where
  "raise_for_status r =
     (if 200 \<le> status_code r \<and> status_code r \<le> 299 then None
      else Some \<lparr>err_text = status_text r, err_response = r\<rparr>)"

section \<open>config.py\<close>

definition get_darango_api :: "world \<Rightarrow> string" where
  "get_darango_api w =
     (case environ w ''DARANGO_API'' of Some v \<Rightarrow> v | None \<Rightarrow> ''http://localhost:8080'')"

definition get_default_db :: "world \<Rightarrow> string" where
  "get_default_db w =
     (case environ w ''ARANGO_DB'' of Some v \<Rightarrow> v | None \<Rightarrow> ''_system'')"

section \<open>client.py\<close>

text \<open>
  \<^verbatim>\<open>DarangoError(message, status_code)\<close>. The message is annotated as a string but is
  whatever value the error body holds under the key, so it is a Python value here.
  \<open>Uncaught\<close> stands for every exception that is not a \<^verbatim>\<open>DarangoError\<close> and that the
  client lets through.
\<close>

datatype exn = DarangoError pyval "int option" | Uncaught string

record DarangoClient =
  base_url :: string
  timeout :: real

text \<open>\<^verbatim>\<open>DarangoClient.__init__\<close>; an omitted \<open>base_url\<close> is \<open>None\<close>.\<close>

definition DarangoClient_init :: "world \<Rightarrow> string option \<Rightarrow> real \<Rightarrow> DarangoClient" where
  "DarangoClient_init w base t =
     \<lparr>base_url = rstrip_slash (py_or base (get_darango_api w)), timeout = t\<rparr>"

text \<open>
  The handler of \<^verbatim>\<open>HTTPStatusError\<close> in \<^verbatim>\<open>_request\<close>: the message starts as \<open>str(e)\<close>;
  any exception inside the inner \<^verbatim>\<open>try\<close> (the body does not decode, \<^verbatim>\<open>in\<close> or the
  subscript raises) leaves it as it is.
\<close>

definition error_message :: "http_status_error \<Rightarrow> pyval" where
  "error_message e =
     (let error_msg = PStr (err_text e) in
      case json_body (err_response e) of
        Inl _ \<Rightarrow> error_msg
      | Inr error_data \<Rightarrow>
          (case py_contains ''errorMessage'' error_data of
             None \<Rightarrow> error_msg
           | Some True \<Rightarrow>
               (case py_getitem error_data ''errorMessage'' of
                  None \<Rightarrow> error_msg | Some v \<Rightarrow> v)
           | Some False \<Rightarrow>
               (case py_contains ''error'' error_data of
                  None \<Rightarrow> error_msg
                | Some True \<Rightarrow>
                    (case py_getitem error_data ''error'' of
                       None \<Rightarrow> error_msg | Some v \<Rightarrow> v)
                | Some False \<Rightarrow> error_msg)))"

text \<open>
  What a client call leaves behind: the requests handed to \<^verbatim>\<open>httpx.request\<close>, in
  order, and the value returned (\<open>Inr\<close>) or the exception raised (\<open>Inl\<close>).
\<close>

record req_result =
  sent :: "http_request list"
  outcome :: "exn + pyval"

text \<open>
  \<^verbatim>\<open>DarangoClient._request\<close> (the name without its underscore): one call of
  \<^verbatim>\<open>httpx.request\<close>, then the three ways out of the \<^verbatim>\<open>try\<close>. An exception that is
  neither \<^verbatim>\<open>HTTPStatusError\<close> nor \<^verbatim>\<open>RequestError\<close>, such as the one \<^verbatim>\<open>response.json()\<close>
  raises on a 2xx body that does not decode, is not handled.
\<close>

definition request :: "world \<Rightarrow> DarangoClient \<Rightarrow> string \<Rightarrow> string \<Rightarrow> pyval \<Rightarrow> pyval \<Rightarrow> req_result" where
  "request w self meth path body query_params =
     (let req = \<lparr>req_method = meth, req_url = base_url self @ path, req_json = body,
                 req_params = query_params, req_timeout = timeout self\<rparr> in
      \<lparr>sent = [req],
       outcome =
         (case httpx_request w req of
            Response r \<Rightarrow>
              (case raise_for_status r of
                 None \<Rightarrow>
                   (case json_body r of
                      Inl d \<Rightarrow> Inl (Uncaught d)
                    | Inr v \<Rightarrow> Inr v)
               | Some e \<Rightarrow>
                   Inl (DarangoError (error_message e) (Some (status_code (err_response e)))))
          | RequestError e \<Rightarrow> Inl (DarangoError (PStr (''Request failed: '' @ e)) None)
          | OtherError e \<Rightarrow> Inl (Uncaught e))\<rparr>)"

text \<open>
  \<^verbatim>\<open>create_collection\<close>; the third parameter has the default \<^verbatim>\<open>"document"\<close>, taken
  when the caller leaves it out (\<open>None\<close>).
\<close>

definition create_collection ::
  "world \<Rightarrow> DarangoClient \<Rightarrow> string \<Rightarrow> string \<Rightarrow> string option \<Rightarrow> req_result" where
  "create_collection w self db name collection_type_arg =
     (let collection_type = (case collection_type_arg of None \<Rightarrow> ''document'' | Some t \<Rightarrow> t);
          type_code = (if collection_type = ''edge'' then 3 else 2) in
      request w self ''POST'' (''/_db/'' @ db @ ''/_api/collection'')
        (PDict [(''name'', PStr name), (''type'', PInt type_code)]) PNone)"

text \<open>\<^verbatim>\<open>query\<close>; \<open>bind_vars\<close> defaults to \<^verbatim>\<open>None\<close>.\<close>

definition query :: "world \<Rightarrow> DarangoClient \<Rightarrow> string \<Rightarrow> string \<Rightarrow> pyval \<Rightarrow> req_result" where
  "query w self db aql bind_vars =
     (let body = [(''query'', PStr aql)];
          body = (if truthy bind_vars then body @ [(''bindVars'', bind_vars)] else body) in
      request w self ''POST'' (''/_db/'' @ db @ ''/_api/cursor'') (PDict body) PNone)"

definition get_document :: "world \<Rightarrow> DarangoClient \<Rightarrow> string \<Rightarrow> string \<Rightarrow> string \<Rightarrow> req_result" where
  "get_document w self db collection key =
     request w self ''GET'' (''/_db/'' @ db @ ''/_api/document/'' @ collection @ ''/'' @ key)
       PNone PNone"

definition insert_document :: "world \<Rightarrow> DarangoClient \<Rightarrow> string \<Rightarrow> string \<Rightarrow> pyval \<Rightarrow> req_result" where
  "insert_document w self db collection document =
     request w self ''POST'' (''/_db/'' @ db @ ''/_api/document/'' @ collection) document PNone"

definition update_document ::
  "world \<Rightarrow> DarangoClient \<Rightarrow> string \<Rightarrow> string \<Rightarrow> string \<Rightarrow> pyval \<Rightarrow> req_result" where
  "update_document w self db collection key document =
     request w self ''PATCH'' (''/_db/'' @ db @ ''/_api/document/'' @ collection @ ''/'' @ key)
       document PNone"

definition delete_document :: "world \<Rightarrow> DarangoClient \<Rightarrow> string \<Rightarrow> string \<Rightarrow> string \<Rightarrow> req_result" where
  "delete_document w self db collection key =
     request w self ''DELETE'' (''/_db/'' @ db @ ''/_api/document/'' @ collection @ ''/'' @ key)
       PNone PNone"

section \<open>cli.py\<close>

text \<open>
  The six methods of the client a command can call, with the arguments of the call.
  A run records the calls it makes, the way the mocked client of the test suite does.
\<close>

datatype client_call =
    CreateCollection string string string
  | Query string string pyval
  | GetDocument string string string
  | InsertDocument string string pyval
  | UpdateDocument string string string pyval
  | DeleteDocument string string string

fun perform :: "world \<Rightarrow> DarangoClient \<Rightarrow> client_call \<Rightarrow> req_result" where
  "perform w client (CreateCollection db name collection_type) =
     create_collection w client db name (Some collection_type)"
| "perform w client (Query db aql bind_vars) = query w client db aql bind_vars"
| "perform w client (GetDocument db col key) = get_document w client db col key"
| "perform w client (InsertDocument db col document) = insert_document w client db col document"
| "perform w client (UpdateDocument db col key document) =
     update_document w client db col key document"
| "perform w client (DeleteDocument db col key) = delete_document w client db col key"

text \<open>
  How a command ends: the function returns (status 0), \<^verbatim>\<open>typer.Exit(code)\<close> is raised,
  or another exception leaves the command uncaught.
\<close>

datatype exit_status = Exit int | Crash string

text \<open>\<^verbatim>\<open>print_json(data)\<close> and \<^verbatim>\<open>print_error(message)\<close>, as events on the output.\<close>

datatype printout = PrintJson pyval | PrintError pyval

record cli_result =
  status :: exit_status
  printed :: "printout list"
  calls :: "client_call list"
  requests :: "http_request list"

definition get_client :: "world \<Rightarrow> DarangoClient" where
  "get_client w = DarangoClient_init w None 30"

text \<open>
  The block every command ends with:
  \<^verbatim>\<open>try: result = client.<method>(...); print_json(result)\<close>
  \<^verbatim>\<open>except DarangoError as e: print_error(e.message); raise typer.Exit(1)\<close>
\<close>

definition call_client :: "world \<Rightarrow> DarangoClient \<Rightarrow> client_call \<Rightarrow> cli_result" where
  "call_client w client c =
     (let r = perform w client c in
      case outcome r of
        Inr result \<Rightarrow>
          \<lparr>status = Exit 0, printed = [PrintJson result], calls = [c], requests = sent r\<rparr>
      | Inl (DarangoError message code) \<Rightarrow>
          \<lparr>status = Exit 1, printed = [PrintError message], calls = [c], requests = sent r\<rparr>
      | Inl (Uncaught e) \<Rightarrow>
          \<lparr>status = Crash e, printed = [], calls = [c], requests = sent r\<rparr>)"

text \<open>The handler of \<^verbatim>\<open>json.JSONDecodeError\<close>: an error line, then \<^verbatim>\<open>typer.Exit(1)\<close>.\<close>

definition invalid_json :: "string \<Rightarrow> string \<Rightarrow> cli_result" where
  "invalid_json what e =
     \<lparr>status = Exit 1, printed = [PrintError (PStr (''Invalid JSON for '' @ what @ '': '' @ e))],
      calls = [], requests = []\<rparr>"

definition create :: "world \<Rightarrow> string \<Rightarrow> string option \<Rightarrow> string \<Rightarrow> cli_result" where
  "create w name db_arg collection_type =
     (let db = py_or db_arg (get_default_db w);
          client = get_client w in
      call_client w client (CreateCollection db name collection_type))"

text \<open>
  The command \<^verbatim>\<open>query\<close> of the command line (the client has a method of the same
  name). \<^verbatim>\<open>if bind:\<close> is false for an omitted option and for the empty string.
\<close>

definition query_cmd :: "world \<Rightarrow> string \<Rightarrow> string option \<Rightarrow> string option \<Rightarrow> cli_result" where
  "query_cmd w aql db_arg bind =
     (let db = py_or db_arg (get_default_db w);
          client = get_client w in
      case (case bind of
              None \<Rightarrow> Inr PNone
            | Some b \<Rightarrow> if b \<noteq> [] then json_loads w b else Inr PNone) of
        Inl e \<Rightarrow> invalid_json ''bind variables'' e
      | Inr bind_vars \<Rightarrow> call_client w client (Query db aql bind_vars))"

definition get_doc :: "world \<Rightarrow> string option \<Rightarrow> string \<Rightarrow> string \<Rightarrow> cli_result" where
  "get_doc w db_arg col key =
     (let db = py_or db_arg (get_default_db w);
          client = get_client w in
      call_client w client (GetDocument db col key))"

definition insert_cmd :: "world \<Rightarrow> string option \<Rightarrow> string \<Rightarrow> string \<Rightarrow> cli_result" where
  "insert_cmd w db_arg col doc =
     (let db = py_or db_arg (get_default_db w);
          client = get_client w in
      case json_loads w doc of
        Inl e \<Rightarrow> invalid_json ''document'' e
      | Inr document \<Rightarrow> call_client w client (InsertDocument db col document))"

definition update_cmd :: "world \<Rightarrow> string option \<Rightarrow> string \<Rightarrow> string \<Rightarrow> string \<Rightarrow> cli_result" where
  "update_cmd w db_arg col key doc =
     (let db = py_or db_arg (get_default_db w);
          client = get_client w in
      case json_loads w doc of
        Inl e \<Rightarrow> invalid_json ''document'' e
      | Inr document \<Rightarrow> call_client w client (UpdateDocument db col key document))"

definition delete_cmd :: "world \<Rightarrow> string option \<Rightarrow> string \<Rightarrow> string \<Rightarrow> cli_result" where
  "delete_cmd w db_arg col key =
     (let db = py_or db_arg (get_default_db w);
          client = get_client w in
      call_client w client (DeleteDocument db col key))"

text \<open>
  One invocation of the program, options as given on the command line: \<open>None\<close> is an
  option left out. \<^verbatim>\<open>--db\<close> and \<^verbatim>\<open>--bind\<close> default to \<^verbatim>\<open>None\<close>, \<^verbatim>\<open>--type\<close> to
  \<^verbatim>\<open>"document"\<close>; the other arguments are required.
\<close>

datatype command =
    Create string "string option" "string option"
  | QueryCmd string "string option" "string option"
  | Get "string option" string string
  | Insert "string option" string string
  | Update "string option" string string string
  | Delete "string option" string string

fun app :: "world \<Rightarrow> command \<Rightarrow> cli_result" where
  "app w (Create name db type_opt) =
     create w name db (case type_opt of None \<Rightarrow> ''document'' | Some t \<Rightarrow> t)"
| "app w (QueryCmd aql db bind) = query_cmd w aql db bind"
| "app w (Get db col key) = get_doc w db col key"
| "app w (Insert db col doc) = insert_cmd w db col doc"
| "app w (Update db col key doc) = update_cmd w db col key doc"
| "app w (Delete db col key) = delete_cmd w db col key"

section \<open>The specification's side\<close>

text \<open>
  The definitions of this section are not part of the program. They restate what the
  specification says, in its own terms, for the theorems to compare the program with.
\<close>

text \<open>A field of the error body: present only when the body decodes to a JSON object.\<close>

definition json_field :: "response \<Rightarrow> string \<Rightarrow> pyval option" where
  "json_field r k = (case json_body r of Inr (PDict kvs) \<Rightarrow> map_of kvs k | _ \<Rightarrow> None)"

text \<open>
  The message by priority: field \<^verbatim>\<open>errorMessage\<close>, else field \<^verbatim>\<open>error\<close>, else the text
  of the status failure.
\<close>

definition message_by_priority :: "response \<Rightarrow> pyval" where
  "message_by_priority r =
     (case json_field r ''errorMessage'' of
        Some v \<Rightarrow> v
      | None \<Rightarrow> (case json_field r ''error'' of Some v \<Rightarrow> v | None \<Rightarrow> PStr (status_text r)))"


text \<open>
  The database a call of the client is made for, the \<^verbatim>\<open>--db\<close> argument of a command,
  and the command with another \<^verbatim>\<open>--db\<close> argument.
\<close>

fun call_db :: "client_call \<Rightarrow> string" where
  "call_db (CreateCollection db name t) = db"
| "call_db (Query db aql bind_vars) = db"
| "call_db (GetDocument db col key) = db"
| "call_db (InsertDocument db col document) = db"
| "call_db (UpdateDocument db col key document) = db"
| "call_db (DeleteDocument db col key) = db"

fun cmd_db :: "command \<Rightarrow> string option" where
  "cmd_db (Create name db t) = db"
| "cmd_db (QueryCmd aql db bind) = db"
| "cmd_db (Get db col key) = db"
| "cmd_db (Insert db col doc) = db"
| "cmd_db (Update db col key doc) = db"
| "cmd_db (Delete db col key) = db"

fun with_db :: "command \<Rightarrow> string option \<Rightarrow> command" where
  "with_db (Create name db t) d = Create name d t"
| "with_db (QueryCmd aql db bind) d = QueryCmd aql d bind"
| "with_db (Get db col key) d = Get d col key"
| "with_db (Insert db col doc) d = Insert d col doc"
| "with_db (Update db col key doc) d = Update d col key doc"
| "with_db (Delete db col key) d = Delete d col key"

text \<open>The text a command hands to \<^verbatim>\<open>json.loads\<close>, if it does.\<close>

fun json_argument :: "command \<Rightarrow> string option" where
  "json_argument (Create name db t) = None"
| "json_argument (QueryCmd aql db bind) =
     (case bind of None \<Rightarrow> None | Some b \<Rightarrow> if b \<noteq> [] then Some b else None)"
| "json_argument (Get db col key) = None"
| "json_argument (Insert db col doc) = Some doc"
| "json_argument (Update db col key doc) = Some doc"
| "json_argument (Delete db col key) = None"

text \<open>
  The database by the precedence of the specification, read to the letter: the
  argument when one is given, else the variable of the environment, else the constant.
\<close>

definition stated_db :: "world \<Rightarrow> string option \<Rightarrow> string" where
  "stated_db w db_arg =
     (case db_arg of
        Some d \<Rightarrow> d
      | None \<Rightarrow> (case environ w ''ARANGO_DB'' of Some v \<Rightarrow> v | None \<Rightarrow> ''_system''))"

section \<open>Example runs\<close>

text \<open>
  A decoder that accepts two texts and rejects every other one, the empty text
  included, with the message \<^verbatim>\<open>json.loads\<close> gives for them; three servers; two
  environments; and the worlds built from them.
\<close>

definition example_loads :: "string \<Rightarrow> string + pyval" where
  "example_loads s =
     (if s = ''{}'' then Inr (PDict [])
      else if s = ''[1]'' then Inr (PList [PInt 1])
      else Inl ''Expecting value: line 1 column 1 (char 0)'')"

definition server_ok :: "http_request \<Rightarrow> transport" where
  "server_ok req = Response \<lparr>status_code = 200,
     json_body = Inr (PDict [(''_key'', PStr ''doc1''), (''value'', PInt 100)]),
     status_text = []\<rparr>"

definition not_found :: response where
  "not_found = \<lparr>status_code = 404,
     json_body = Inr (PDict [(''error'', PBool True), (''errorMessage'', PStr ''document not found''),
                             (''code'', PInt 404)]),
     status_text = ''Client error 404 Not Found''\<rparr>"

definition server_not_found :: "http_request \<Rightarrow> transport" where
  "server_not_found req = Response not_found"

definition server_down :: "http_request \<Rightarrow> transport" where
  "server_down req = RequestError ''[Errno 111] Connection refused''"

definition example_world :: "(string \<rightharpoonup> string) \<Rightarrow> (http_request \<Rightarrow> transport) \<Rightarrow> world" where
  "example_world env net = \<lparr>environ = env, httpx_request = net, json_loads = example_loads\<rparr>"

definition example_client :: DarangoClient where
  "example_client = \<lparr>base_url = ''http://localhost:8080'', timeout = 30\<rparr>"

definition get_doc1 :: http_request where
  "get_doc1 = \<lparr>req_method = ''GET'',
     req_url = ''http://localhost:8080/_db/_system/_api/document/test/doc1'',
     req_json = PNone, req_params = PNone, req_timeout = 30\<rparr>"

definition env_mydb :: "string \<rightharpoonup> string" where
  "env_mydb = [''ARANGO_DB'' \<mapsto> ''mydb'']"

definition env_empty_db :: "string \<rightharpoonup> string" where
  "env_empty_db = [''ARANGO_DB'' \<mapsto> []]"

section \<open>The request executor\<close>

lemma contains_dict_Some: "map_of kvs k = Some v \<Longrightarrow> py_contains k (PDict kvs) = Some True"
  using map_of_eq_None_iff [of kvs k] by auto

lemma contains_dict_None: "map_of kvs k = None \<Longrightarrow> py_contains k (PDict kvs) = Some False"
  by (simp add: map_of_eq_None_iff)

lemma error_message_dict:
  assumes "json_body r = Inr (PDict kvs)"
  shows "error_message \<lparr>err_text = status_text r, err_response = r\<rparr> = message_by_priority r"
proof (cases "map_of kvs ''errorMessage''")
  case (Some v)
  with assms show ?thesis
    by (simp add: error_message_def message_by_priority_def json_field_def
        contains_dict_Some [OF Some] del: py_contains.simps)
next
  case None
  note no_message = None
  show ?thesis
  proof (cases "map_of kvs ''error''")
    case (Some v)
    with assms no_message show ?thesis
      by (simp add: error_message_def message_by_priority_def json_field_def
          contains_dict_None [OF no_message] contains_dict_Some [OF Some]
          del: py_contains.simps)
  next
    case None
    with assms no_message show ?thesis
      by (simp add: error_message_def message_by_priority_def json_field_def
          contains_dict_None [OF no_message] contains_dict_None [OF None]
          del: py_contains.simps)
  qed
qed

lemma error_message_priority:
  "error_message \<lparr>err_text = status_text r, err_response = r\<rparr> = message_by_priority r"
proof (cases "json_body r")
  case (Inl d)
  then show ?thesis
    by (simp add: error_message_def message_by_priority_def json_field_def)
next
  case (Inr v)
  then show ?thesis
  proof (cases v)
    case (PDict kvs)
    with Inr show ?thesis by (simp add: error_message_dict)
  qed (simp_all add: error_message_def message_by_priority_def json_field_def Let_def
         split: bool.splits)
qed

text \<open>
  C1. A response with a status code from 400 to 599 makes the request executor fail
  with a \<open>DarangoError\<close> that carries the status code of the response and the message
  chosen by priority: the value of the field \<^verbatim>\<open>errorMessage\<close> when the body decodes to
  a JSON object that has it, else the value of the field \<^verbatim>\<open>error\<close> when it has that,
  else the text of the status failure. A body that does not decode, or decodes to
  something that is not an object, has no fields.
\<close>

theorem request_status_error:
  assumes "httpx_request w \<lparr>req_method = meth, req_url = base_url self @ path, req_json = body,
             req_params = qp, req_timeout = timeout self\<rparr> = Response r"
    and "400 \<le> status_code r" and "status_code r \<le> 599"
  shows "outcome (request w self meth path body qp) =
           Inl (DarangoError (message_by_priority r) (Some (status_code r)))"
  using assms by (simp add: request_def raise_for_status_def error_message_priority)

theorem request_status_error_witness:
  "httpx_request (example_world Map.empty server_not_found)
     \<lparr>req_method = ''GET'', req_url = base_url example_client @ ''/_db/_system/_api/document/test/doc1'',
      req_json = PNone, req_params = PNone, req_timeout = timeout example_client\<rparr> = Response not_found
   \<and> 400 \<le> status_code not_found \<and> status_code not_found \<le> 599
   \<and> outcome (request (example_world Map.empty server_not_found) example_client ''GET''
         ''/_db/_system/_api/document/test/doc1'' PNone PNone) =
       Inl (DarangoError (PStr ''document not found'') (Some 404))"
proof -
  have sends: "httpx_request (example_world Map.empty server_not_found)
     \<lparr>req_method = ''GET'', req_url = base_url example_client @ ''/_db/_system/_api/document/test/doc1'',
      req_json = PNone, req_params = PNone, req_timeout = timeout example_client\<rparr> = Response not_found"
    by (simp add: example_world_def server_not_found_def)
  have lo: "400 \<le> status_code not_found" and hi: "status_code not_found \<le> 599"
    by (simp_all add: not_found_def)
  have "message_by_priority not_found = PStr ''document not found''"
    by (simp add: message_by_priority_def json_field_def not_found_def)
  moreover have "status_code not_found = 404"
    by (simp add: not_found_def)
  ultimately show ?thesis
    using request_status_error [OF sends lo hi] sends lo hi by simp
qed

text \<open>
  C6. When the transport fails with a \<^verbatim>\<open>httpx.RequestError\<close>, the request executor has
  handed exactly one request to the transport and fails with a \<open>DarangoError\<close> whose
  message is \<^verbatim>\<open>Request failed: \<close> followed by the text of the transport error, and whose
  status code is \<^verbatim>\<open>None\<close>.
\<close>

theorem request_transport_failure:
  assumes "httpx_request w \<lparr>req_method = meth, req_url = base_url self @ path, req_json = body,
             req_params = qp, req_timeout = timeout self\<rparr> = RequestError e"
  shows "request w self meth path body qp =
           \<lparr>sent = [\<lparr>req_method = meth, req_url = base_url self @ path, req_json = body,
                     req_params = qp, req_timeout = timeout self\<rparr>],
            outcome = Inl (DarangoError (PStr (''Request failed: '' @ e)) None)\<rparr>"
  using assms by (simp add: request_def Let_def)

theorem request_transport_failure_witness:
  "httpx_request (example_world Map.empty server_down) get_doc1 =
     RequestError ''[Errno 111] Connection refused''
   \<and> request (example_world Map.empty server_down) example_client ''GET''
         ''/_db/_system/_api/document/test/doc1'' PNone PNone =
       \<lparr>sent = [get_doc1],
        outcome = Inl (DarangoError (PStr ''Request failed: [Errno 111] Connection refused'') None)\<rparr>"
proof -
  have sends: "httpx_request (example_world Map.empty server_down)
     \<lparr>req_method = ''GET'', req_url = base_url example_client @ ''/_db/_system/_api/document/test/doc1'',
      req_json = PNone, req_params = PNone, req_timeout = timeout example_client\<rparr> =
     RequestError ''[Errno 111] Connection refused''"
    by (simp add: example_world_def server_down_def)
  show ?thesis
    using request_transport_failure [OF sends]
    by (simp add: example_world_def server_down_def get_doc1_def example_client_def)
qed

section \<open>The endpoint operations\<close>

lemmas client_defs = create_collection_def query_def get_document_def insert_document_def
  update_document_def delete_document_def

text \<open>
  C2. Called without bind variables, the query operation sends one \<^verbatim>\<open>POST\<close> to the
  cursor path of the database whose body is the object with the single field
  \<^verbatim>\<open>query\<close>: there is no field \<^verbatim>\<open>bindVars\<close>, not even an empty one. The command
  \<^verbatim>\<open>query\<close> without \<^verbatim>\<open>--bind\<close> calls the operation that way.
\<close>

theorem query_without_bind_vars:
  "sent (query w self db aql PNone) =
     [\<lparr>req_method = ''POST'', req_url = base_url self @ ''/_db/'' @ db @ ''/_api/cursor'',
       req_json = PDict [(''query'', PStr aql)], req_params = PNone,
       req_timeout = timeout self\<rparr>]
   \<and> calls (app w (QueryCmd aql db_arg None)) = [Query (py_or db_arg (get_default_db w)) aql PNone]"
  by (simp add: query_def request_def Let_def query_cmd_def call_client_def
      split: sum.splits exn.splits)

text \<open>
  C3. Creating a collection sends one \<^verbatim>\<open>POST\<close> to the collection path of the database
  with the body \<^verbatim>\<open>{name, type}\<close>, where the type is 3 for the collection type
  \<^verbatim>\<open>"edge"\<close> and 2 for every other one, the default of an omitted argument included;
  so does the command \<^verbatim>\<open>create\<close>, whose \<^verbatim>\<open>--type\<close> may be left out.
\<close>

theorem create_collection_type_code:
  "sent (create_collection w self db name t) =
     [\<lparr>req_method = ''POST'', req_url = base_url self @ ''/_db/'' @ db @ ''/_api/collection'',
       req_json = PDict [(''name'', PStr name),
                         (''type'', PInt (if t = Some ''edge'' then 3 else 2))],
       req_params = PNone, req_timeout = timeout self\<rparr>]
   \<and> map req_json (requests (app w (Create name db_arg type_arg))) =
     [PDict [(''name'', PStr name),
             (''type'', PInt (if type_arg = Some ''edge'' then 3 else 2))]]"
  by (simp add: create_collection_def request_def Let_def create_def call_client_def
      split: option.splits sum.splits exn.splits)

theorem create_collection_type_code_witness:
  "map req_json (sent (create_collection (example_world Map.empty server_ok) example_client
       ''_system'' ''edges'' (Some ''edge''))) =
     [PDict [(''name'', PStr ''edges''), (''type'', PInt 3)]]
   \<and> map req_json (sent (create_collection (example_world Map.empty server_ok) example_client
       ''_system'' ''docs'' (Some ''document''))) =
     [PDict [(''name'', PStr ''docs''), (''type'', PInt 2)]]
   \<and> map req_json (sent (create_collection (example_world Map.empty server_ok) example_client
       ''_system'' ''docs'' None)) =
     [PDict [(''name'', PStr ''docs''), (''type'', PInt 2)]]"
  using
    create_collection_type_code [of "example_world Map.empty server_ok" example_client
      "''_system''" "''edges''" "Some ''edge''"]
    create_collection_type_code [of "example_world Map.empty server_ok" example_client
      "''_system''" "''docs''" "Some ''document''"]
    create_collection_type_code [of "example_world Map.empty server_ok" example_client
      "''_system''" "''docs''" None]
  by simp



text \<open>
  C9. The query operation called with the empty mapping as bind variables does exactly
  what it does without bind variables: the same request, whose body has the single
  field \<^verbatim>\<open>query\<close>, and the same result.
\<close>

theorem query_empty_bind_vars:
  "query w self db aql (PDict []) = query w self db aql PNone
   \<and> map req_json (sent (query w self db aql (PDict []))) = [PDict [(''query'', PStr aql)]]"
  by (simp add: query_def request_def Let_def)

section \<open>The command layer\<close>

lemmas command_defs = create_def query_cmd_def get_doc_def insert_cmd_def update_cmd_def
  delete_cmd_def

lemma calls_call_client: "calls (call_client w cl k) = [k]"
  by (simp add: call_client_def Let_def split: sum.splits exn.splits)

lemma requests_call_client: "requests (call_client w cl k) = sent (perform w cl k)"
  by (simp add: call_client_def Let_def split: sum.splits exn.splits)




text \<open>
  A run either stops at the JSON argument or is one call of the client, for the
  database the command resolved.
\<close>

lemma app_shape:
  "(\<exists>s e what. json_argument c = Some s \<and> json_loads w s = Inl e \<and> app w c = invalid_json what e)
   \<or> (\<exists>k. app w c = call_client w (get_client w) k \<and>
            call_db k = py_or (cmd_db c) (get_default_db w) \<and>
            (\<forall>s. json_argument c = Some s \<longrightarrow> (\<exists>v. json_loads w s = Inr v)))"
proof (cases c)
  case (QueryCmd aql db bind)
  show ?thesis
  proof (cases "json_argument c")
    case None
    with QueryCmd show ?thesis
      by (auto simp: query_cmd_def Let_def split: option.splits if_splits)
  next
    case (Some s)
    with QueryCmd have bind: "bind = Some s" "s \<noteq> []"
      by (auto split: option.splits if_splits)
    show ?thesis
    proof (cases "json_loads w s")
      case (Inl e)
      with QueryCmd bind show ?thesis by (auto simp: query_cmd_def Let_def)
    next
      case (Inr v)
      with QueryCmd bind show ?thesis by (auto simp: query_cmd_def Let_def)
    qed
  qed
next
  case (Insert db col doc)
  then show ?thesis
    by (cases "json_loads w doc") (auto simp: insert_cmd_def Let_def)
next
  case (Update db col key doc)
  then show ?thesis
    by (cases "json_loads w doc") (auto simp: update_cmd_def Let_def)
qed (auto simp: command_defs Let_def)

lemma perform_url:
  "\<exists>rest. map req_url (sent (perform w cl k)) =
     [base_url cl @ ''/_db/'' @ call_db k @ ''/_api/'' @ rest]"
  by (cases k) (simp_all add: client_defs request_def Let_def)






lemma cmd_db_with_db: "cmd_db (with_db c d) = d"
  by (cases c) simp_all

lemma calls_app_db:
  assumes "k \<in> set (calls (app w c))"
  shows "call_db k = py_or (cmd_db c) (get_default_db w)"
proof -
  consider
    (invalid) what e where "app w c = invalid_json what e"
  | (called) k' where "app w c = call_client w (get_client w) k'"
      "call_db k' = py_or (cmd_db c) (get_default_db w)"
    using app_shape [of c w] by blast
  then show ?thesis
  proof cases
    case invalid
    with assms show ?thesis by (simp add: invalid_json_def)
  next
    case called
    with assms show ?thesis by (simp add: calls_call_client)
  qed
qed

lemma requests_app_url:
  assumes "r \<in> set (requests (app w c))"
  shows "\<exists>rest. req_url r =
    base_url (get_client w) @ ''/_db/'' @ py_or (cmd_db c) (get_default_db w) @ ''/_api/'' @ rest"
proof -
  consider
    (invalid) what e where "app w c = invalid_json what e"
  | (called) k where "app w c = call_client w (get_client w) k"
      "call_db k = py_or (cmd_db c) (get_default_db w)"
    using app_shape [of c w] by blast
  then show ?thesis
  proof cases
    case invalid
    with assms show ?thesis by (simp add: invalid_json_def)
  next
    case called
    from perform_url [of w "get_client w" k]
    obtain rest where "map req_url (sent (perform w (get_client w) k)) =
        [base_url (get_client w) @ ''/_db/'' @ call_db k @ ''/_api/'' @ rest]" ..
    moreover from assms called(1) have "req_url r \<in> set (map req_url (sent (perform w (get_client w) k)))"
      by (simp add: requests_call_client)
    ultimately show ?thesis using called(2) by auto
  qed
qed

text \<open>
  C7, as the program has it. In every command, each call of the client gets as its
  database the \<^verbatim>\<open>--db\<close> argument when one is given and is not empty, else the value
  of the environment variable \<^verbatim>\<open>ARANGO_DB\<close> when it is set, else \<^verbatim>\<open>_system\<close>.
\<close>

theorem database_resolution:
  "\<forall>k \<in> set (calls (app w c)).
     call_db k =
       (let default_db = (case environ w ''ARANGO_DB'' of Some v \<Rightarrow> v | None \<Rightarrow> ''_system'') in
        case cmd_db c of
          Some d \<Rightarrow> if d \<noteq> [] then d else default_db
        | None \<Rightarrow> default_db)"
  using calls_app_db [of _ w c] by (simp add: py_or_def get_default_db_def Let_def)

theorem database_resolution_witness:
  "map call_db (calls (app (example_world env_mydb server_ok) (Get (Some ''other'') ''test'' ''doc1'')))
     = [''other'']
   \<and> map call_db (calls (app (example_world env_mydb server_ok) (Get None ''test'' ''doc1'')))
     = [''mydb'']
   \<and> map call_db (calls (app (example_world Map.empty server_ok) (Get None ''test'' ''doc1'')))
     = [''_system'']"
proof -
  have shape: "\<exists>k. calls (app w (Get db ''test'' ''doc1'')) = [k]" for w db
    by (simp add: get_doc_def Let_def calls_call_client)
  have env: "environ (example_world env_mydb server_ok) ''ARANGO_DB'' = Some ''mydb''"
    "environ (example_world Map.empty server_ok) ''ARANGO_DB'' = None"
    by (simp_all add: example_world_def env_mydb_def)
  from shape [of "example_world env_mydb server_ok" "Some ''other''"]
    database_resolution [of "example_world env_mydb server_ok" "Get (Some ''other'') ''test'' ''doc1''"]
  have 1: "map call_db (calls (app (example_world env_mydb server_ok)
      (Get (Some ''other'') ''test'' ''doc1''))) = [''other'']"
    by auto
  from shape [of "example_world env_mydb server_ok" None] env
    database_resolution [of "example_world env_mydb server_ok" "Get None ''test'' ''doc1''"]
  have 2: "map call_db (calls (app (example_world env_mydb server_ok)
      (Get None ''test'' ''doc1''))) = [''mydb'']"
    by auto
  from shape [of "example_world Map.empty server_ok" None] env
    database_resolution [of "example_world Map.empty server_ok" "Get None ''test'' ''doc1''"]
  have 3: "map call_db (calls (app (example_world Map.empty server_ok)
      (Get None ''test'' ''doc1''))) = [''_system'']"
    by auto
  from 1 2 3 show ?thesis by blast
qed

text \<open>
  C7, as stated, fails for \<^verbatim>\<open>get --db "" --col test --key doc1\<close> with
  \<^verbatim>\<open>ARANGO_DB=mydb\<close>: the argument is given and is the empty text, and the call of the
  client gets \<^verbatim>\<open>mydb\<close>.
\<close>

theorem empty_db_option_not_used:
  "cmd_db (Get (Some []) ''test'' ''doc1'') = Some []
   \<and> stated_db (example_world env_mydb server_ok) (Some []) = []
   \<and> calls (app (example_world env_mydb server_ok) (Get (Some []) ''test'' ''doc1'')) =
       [GetDocument ''mydb'' ''test'' ''doc1'']"
  by (simp add: stated_db_def get_doc_def Let_def calls_call_client py_or_def get_default_db_def
      example_world_def env_mydb_def)

text \<open>
  C10, as the program has it. A command with \<^verbatim>\<open>--db ""\<close> runs exactly as the command
  without \<^verbatim>\<open>--db\<close>: every call of the client gets the default database, which is the
  value of \<^verbatim>\<open>ARANGO_DB\<close> when it is set and \<^verbatim>\<open>_system\<close> otherwise, and the address of
  every request has that name after \<^verbatim>\<open>/_db/\<close>. The name is empty exactly when
  \<^verbatim>\<open>ARANGO_DB\<close> is set to the empty text.
\<close>

theorem empty_db_option_is_omitted:
  "app w (with_db c (Some [])) = app w (with_db c None)
   \<and> (\<forall>k \<in> set (calls (app w (with_db c (Some [])))). call_db k = get_default_db w)
   \<and> (\<forall>r \<in> set (requests (app w (with_db c (Some [])))).
        \<exists>rest. req_url r =
          base_url (get_client w) @ ''/_db/'' @ get_default_db w @ ''/_api/'' @ rest)
   \<and> get_default_db w = (case environ w ''ARANGO_DB'' of Some v \<Rightarrow> v | None \<Rightarrow> ''_system'')
   \<and> (get_default_db w = [] \<longleftrightarrow> environ w ''ARANGO_DB'' = Some [])"
proof -
  have same: "app w (with_db c (Some [])) = app w (with_db c None)"
    by (cases c) (simp_all add: command_defs py_or_def)
  have db: "py_or (cmd_db (with_db c (Some []))) (get_default_db w) = get_default_db w"
    by (simp add: cmd_db_with_db py_or_def)
  have called: "\<forall>k \<in> set (calls (app w (with_db c (Some [])))). call_db k = get_default_db w"
    using calls_app_db [of _ w "with_db c (Some [])"] db by simp
  have sent: "\<forall>r \<in> set (requests (app w (with_db c (Some [])))).
        \<exists>rest. req_url r =
          base_url (get_client w) @ ''/_db/'' @ get_default_db w @ ''/_api/'' @ rest"
    using requests_app_url [of _ w "with_db c (Some [])"] db by simp
  have default_db: "get_default_db w =
      (case environ w ''ARANGO_DB'' of Some v \<Rightarrow> v | None \<Rightarrow> ''_system'')"
    by (simp add: get_default_db_def)
  have empty: "get_default_db w = [] \<longleftrightarrow> environ w ''ARANGO_DB'' = Some []"
    by (simp add: get_default_db_def split: option.splits)
  from same called sent default_db empty show ?thesis by blast
qed

theorem empty_db_option_is_omitted_witness:
  "app (example_world env_mydb server_ok) (Get (Some []) ''test'' ''doc1'') =
     app (example_world env_mydb server_ok) (Get None ''test'' ''doc1'')
   \<and> map call_db (calls (app (example_world env_mydb server_ok) (Get (Some []) ''test'' ''doc1'')))
       = [''mydb'']
   \<and> map req_url (requests (app (example_world env_mydb server_ok) (Get (Some []) ''test'' ''doc1'')))
       = [''http://localhost:8080/_db/mydb/_api/document/test/doc1'']"
proof -
  let ?w = "example_world env_mydb server_ok"
  have cmd: "with_db (Get None ''test'' ''doc1'') d = Get d ''test'' ''doc1''" for d
    by simp
  have shape: "\<exists>k. calls (app ?w (Get (Some []) ''test'' ''doc1'')) = [k]"
    by (simp add: get_doc_def Let_def calls_call_client)
  have default_db: "get_default_db ?w = ''mydb''"
    by (simp add: get_default_db_def example_world_def env_mydb_def)
  have url: "map req_url (requests (app ?w (Get (Some []) ''test'' ''doc1''))) =
      [''http://localhost:8080/_db/mydb/_api/document/test/doc1'']"
    by (simp add: get_doc_def Let_def requests_call_client get_document_def request_def
        py_or_def get_default_db_def get_client_def DarangoClient_init_def get_darango_api_def
        rstrip_slash_def example_world_def env_mydb_def)
  from empty_db_option_is_omitted [of ?w "Get None ''test'' ''doc1''"] cmd shape default_db url
  show ?thesis by auto
qed

text \<open>
  C10, as stated, fails for \<^verbatim>\<open>get --db "" --col test --key doc1\<close> when \<^verbatim>\<open>ARANGO_DB\<close>
  is set to the empty text: the database of the call is empty and the path of the
  request is \<^verbatim>\<open>/_db//_api/document/test/doc1\<close>.
\<close>

theorem empty_default_db_in_path:
  "calls (app (example_world env_empty_db server_ok) (Get (Some []) ''test'' ''doc1'')) =
     [GetDocument [] ''test'' ''doc1'']
   \<and> requests (app (example_world env_empty_db server_ok) (Get (Some []) ''test'' ''doc1'')) =
     [\<lparr>req_method = ''GET'', req_url = ''http://localhost:8080/_db//_api/document/test/doc1'',
       req_json = PNone, req_params = PNone, req_timeout = 30\<rparr>]"
  by (simp add: get_doc_def Let_def calls_call_client requests_call_client get_document_def
      request_def py_or_def get_default_db_def get_client_def DarangoClient_init_def
      get_darango_api_def rstrip_slash_def example_world_def env_empty_db_def)

end
